theory Spec2Isabelle
  imports Main "HOL-Library.Word" "HOL-Library.Sublist"
begin

section \<open>The 8bit cpu assembler (src/tools/assembler/assembler.c)\<close>

text \<open>
  A shallow embedding of \<^verbatim>\<open>assembler.c\<close>. A C string is the list of its characters before
  the terminating NUL. Every array access of the source is checked in the model: an access
  outside the object it indexes is undefined behaviour in C and is a \<open>Fault\<close> here, so that
  each such access is a branch of the model instead of an unspecified HOL value.
\<close>

subsection \<open>Constants\<close>

definition PROGRAM_MEMORY_SIZE :: nat where "PROGRAM_MEMORY_SIZE = 256"
definition MAX_JUMP_COUNT :: nat where "MAX_JUMP_COUNT = 64"
definition MAX_LABEL_COUNT :: nat where "MAX_LABEL_COUNT = 32"
definition MAX_LABEL_LENGTH :: nat where "MAX_LABEL_LENGTH = 32"
definition MAX_LINE_LENGTH :: nat where "MAX_LINE_LENGTH = 128"
definition OPCODE_COUNT :: nat where "OPCODE_COUNT = 33"

subsection \<open>Data\<close>

text \<open>\<^verbatim>\<open>struct label\<close>: an address of the program memory and a name.\<close>

record label =
  memory_addr :: nat
  label :: string

text \<open>
  The \<^verbatim>\<open>opcode\<close> struct. The field \<^verbatim>\<open>a\<close> of the source (implicit, single-byte
  instruction) is \<open>a_impl\<close> here; the other fields keep their names.
\<close>

record opcode =
  mnemonic :: string
  a_impl :: int
  a_abs :: int
  a_imm :: int
  a_idx :: int
  a_idx_ind :: int
  a_ind :: int
  a_ind_idx :: int
  a_label :: int

definition opcode_row ::
  "string \<Rightarrow> int \<Rightarrow> int \<Rightarrow> int \<Rightarrow> int \<Rightarrow> int \<Rightarrow> int \<Rightarrow> int \<Rightarrow> int \<Rightarrow> opcode" where
  "opcode_row m v0 v1 v2 v3 v4 v5 v6 v7 =
     \<lparr>mnemonic = m, a_impl = v0, a_abs = v1, a_imm = v2, a_idx = v3,
      a_idx_ind = v4, a_ind = v5, a_ind_idx = v6, a_label = v7\<rparr>"

definition OPCODES :: "opcode list" where
  "OPCODES =
   [opcode_row ''adc'' 0x00 0x5a 0x57 0x00 0x00 0x00 0x00 0x00,
    opcode_row ''and'' 0x00 0x70 0x6d 0x00 0x00 0x00 0x00 0x00,
    opcode_row ''asl'' 0x8b 0x00 0x00 0x00 0x00 0x00 0x00 0x00,
    opcode_row ''bcc'' 0x00 0x00 0x98 0x00 0x00 0x00 0x00 0x98,
    opcode_row ''bcs'' 0x00 0x00 0x9a 0x00 0x00 0x00 0x00 0x9a,
    opcode_row ''beq'' 0x00 0x00 0x9e 0x00 0x00 0x00 0x00 0x9e,
    opcode_row ''bmi'' 0x00 0x00 0x96 0x00 0x00 0x00 0x00 0x96,
    opcode_row ''bne'' 0x00 0x00 0x9c 0x00 0x00 0x00 0x00 0x9c,
    opcode_row ''bpl'' 0x00 0x00 0x94 0x00 0x00 0x00 0x00 0x94,
    opcode_row ''cib'' 0xd7 0x00 0x00 0x00 0x00 0x00 0x00 0x00,
    opcode_row ''clc'' 0xa2 0x00 0x00 0x00 0x00 0x00 0x00 0x00,
    opcode_row ''cmp'' 0x00 0xa6 0xa4 0x00 0x00 0x00 0x00 0x00,
    opcode_row ''dec'' 0x6a 0x00 0x00 0x00 0x00 0x00 0x00 0x00,
    opcode_row ''eor'' 0x00 0x80 0x7d 0x00 0x00 0x00 0x00 0x00,
    opcode_row ''inc'' 0x67 0x00 0x00 0x00 0x00 0x00 0x00 0x00,
    opcode_row ''jmp'' 0x00 0xba 0xb8 0x00 0x00 0x00 0x00 0xb8,
    opcode_row ''jsr'' 0x00 0xc8 0xbe 0x00 0x00 0x00 0x00 0xbe,
    opcode_row ''lda'' 0x00 0x08 0x06 0x00 0x00 0x0c 0x00 0x00,
    opcode_row ''ldb'' 0x00 0x14 0x12 0xd9 0x25 0x18 0x1e 0x00,
    opcode_row ''lsl'' 0x85 0x00 0x00 0x00 0x00 0x00 0x00 0x00,
    opcode_row ''lsr'' 0x88 0x00 0x00 0x00 0x00 0x00 0x00 0x00,
    opcode_row ''ora'' 0x00 0x78 0x75 0x00 0x00 0x00 0x00 0x00,
    opcode_row ''pha'' 0xaa 0x00 0x00 0x00 0x00 0x00 0x00 0x00,
    opcode_row ''pop'' 0xb2 0x00 0x00 0x00 0x00 0x00 0x00 0x00,
    opcode_row ''rol'' 0x8e 0x00 0x00 0x00 0x00 0x00 0x00 0x00,
    opcode_row ''ror'' 0x91 0x00 0x00 0x00 0x00 0x00 0x00 0x00,
    opcode_row ''rts'' 0xd1 0x00 0x00 0x00 0x00 0x00 0x00 0x00,
    opcode_row ''sbc'' 0x00 0x62 0x5f 0x00 0x00 0x00 0x00 0x00,
    opcode_row ''sec'' 0xa0 0x00 0x00 0x00 0x00 0x00 0x00 0x00,
    opcode_row ''sta'' 0x00 0x2c 0x00 0x00 0x00 0x30 0x00 0x00,
    opcode_row ''stb'' 0x00 0x3b 0x00 0x36 0x4c 0x3f 0x45 0x00,
    opcode_row ''tab'' 0x53 0x00 0x00 0x00 0x00 0x00 0x00 0x00,
    opcode_row ''tba'' 0x55 0x00 0x00 0x00 0x00 0x00 0x00 0x00]"

subsection \<open>Errors and outcomes\<close>

text \<open>
  Each \<^verbatim>\<open>exit(EXIT_FAILURE)\<close> of the source is an error value named after the message it
  prints. A \<open>Fault\<close> is an access outside an object: the C program has no defined
  behaviour from there on.
\<close>

datatype fault =
    TokenAccess           \<comment> \<open>character access outside a token and its terminator\<close>
  | ProgramAccess nat     \<comment> \<open>\<^verbatim>\<open>program[i]\<close> with \<open>i\<close> beyond the array\<close>
  | LabelTableAccess nat  \<comment> \<open>\<^verbatim>\<open>label_table[i]\<close> with \<open>i\<close> beyond the array\<close>
  | JumpTableAccess nat   \<comment> \<open>\<^verbatim>\<open>jump_table[i]\<close> with \<open>i\<close> beyond the array\<close>
  | LabelBufferOverflow   \<comment> \<open>\<^verbatim>\<open>strcpy\<close> of more than 32 bytes into \<^verbatim>\<open>char label[32]\<close>\<close>
  | UninitialisedRead     \<comment> \<open>use of a variable that was never assigned\<close>

datatype error =
    UnknownMnemonic        \<comment> \<open>"Unkown opcode"\<close>
  | InvalidOperand         \<comment> \<open>"Invalid or missing operand"\<close>
  | InvalidAddressFormat   \<comment> \<open>"Invalid address format"\<close>
  | InvalidAddressRange    \<comment> \<open>"Invalid address range"\<close>
  | LabelTooLong           \<comment> \<open>"Label name is too long"\<close>
  | LabelTableFull         \<comment> \<open>"Exceeded label count"\<close>
  | JumpTableFull          \<comment> \<open>"Exceeded jump count"\<close>
  | ProgramTooLarge        \<comment> \<open>"Program exceeds memory size"\<close>
  | UndefinedLabel string  \<comment> \<open>"Could not find label"\<close>
  | Fault fault

text \<open>
  A function of the source that changes memory returns the memory it leaves: \<open>Continue\<close>
  when it returns, \<open>Exit\<close> with the error and the memory at that point when it exits.
\<close>

datatype 'a outcome = Continue 'a | Exit error 'a

definition and_then :: "'a outcome \<Rightarrow> ('a \<Rightarrow> 'a outcome) \<Rightarrow> 'a outcome" where
  "and_then m f = (case m of Continue x \<Rightarrow> f x | Exit e x \<Rightarrow> Exit e x)"

subsection \<open>Characters of a token\<close>

text \<open>
  \<^verbatim>\<open>token[i]\<close>: the characters of the token, then its terminator at \<open>i = strlen(token)\<close>.
  The source computes indices as \<^verbatim>\<open>strlen(token) - k\<close>; for a token shorter than \<open>k\<close> the
  index lies before the token (the \<^verbatim>\<open>size_t\<close> difference wraps), which is \<open>None\<close> here.
\<close>

definition char_at :: "string \<Rightarrow> int \<Rightarrow> char option" where
  "char_at token i =
     (if 0 \<le> i \<and> i < int (length token) then Some (token ! nat i)
      else if i = int (length token) then Some (CHR 0x00)
      else None)"

definition strlen :: "string \<Rightarrow> int" where
  "strlen s = int (length s)"

definition ch_eq :: "string \<Rightarrow> int \<Rightarrow> char \<Rightarrow> bool option" where
  "ch_eq token i c = (case char_at token i of None \<Rightarrow> None | Some x \<Rightarrow> Some (x = c))"

definition ch_ne :: "string \<Rightarrow> int \<Rightarrow> char \<Rightarrow> bool option" where
  "ch_ne token i c = (case char_at token i of None \<Rightarrow> None | Some x \<Rightarrow> Some (x \<noteq> c))"

text \<open>C's \<^verbatim>\<open>&&\<close> and \<^verbatim>\<open>||\<close>: the right operand is evaluated only when the left one
  does not decide.\<close>

definition and_also :: "bool option \<Rightarrow> bool option \<Rightarrow> bool option" where
  "and_also x y = (case x of None \<Rightarrow> None | Some True \<Rightarrow> y | Some False \<Rightarrow> Some False)"

definition or_else :: "bool option \<Rightarrow> bool option \<Rightarrow> bool option" where
  "or_else x y = (case x of None \<Rightarrow> None | Some True \<Rightarrow> Some True | Some False \<Rightarrow> y)"

subsection \<open>The addressing-mode predicates\<close>

definition is_abs :: "string \<Rightarrow> bool option" where
  "is_abs token =
     and_also (ch_eq token 0 (CHR ''$''))
              (ch_ne token (strlen token - 2) (CHR '',''))"

definition is_idx :: "string \<Rightarrow> bool option" where
  "is_idx token =
     and_also (ch_eq token 0 (CHR ''$''))
    (and_also (ch_eq token (strlen token - 2) (CHR '',''))
              (ch_eq token (strlen token - 1) (CHR ''a'')))"

definition is_imm :: "string \<Rightarrow> bool option" where
  "is_imm token = ch_eq token 0 (CHR ''#'')"

definition is_idx_ind :: "string \<Rightarrow> bool option" where
  "is_idx_ind token =
     and_also (ch_eq token 0 (CHR ''(''))
    (and_also (ch_eq token 1 (CHR ''$''))
    (and_also (ch_eq token (strlen token - 3) (CHR '',''))
    (and_also (ch_eq token (strlen token - 2) (CHR ''a''))
              (ch_eq token (strlen token - 1) (CHR '')'')))))"

definition is_ind :: "string \<Rightarrow> bool option" where
  "is_ind token =
     and_also (ch_eq token 0 (CHR ''(''))
    (and_also (ch_eq token 1 (CHR ''$''))
    (and_also (ch_ne token (strlen token - 3) (CHR '',''))
    (and_also (ch_ne token (strlen token - 2) (CHR ''a''))
              (ch_eq token (strlen token - 1) (CHR '')'')))))"

definition is_ind_idx :: "string \<Rightarrow> bool option" where
  "is_ind_idx token =
     and_also (ch_eq token 0 (CHR ''(''))
    (and_also (ch_eq token 1 (CHR ''$''))
    (and_also (ch_ne token (strlen token - 3) (CHR '')''))
    (and_also (ch_ne token (strlen token - 2) (CHR '',''))
              (ch_eq token (strlen token - 1) (CHR ''a'')))))"

definition is_valid_address :: "nat \<Rightarrow> string \<Rightarrow> bool option" where
  "is_valid_address opcode_index str =
     or_else (and_also (Some (a_abs (OPCODES ! opcode_index) \<noteq> 0)) (is_abs str))
    (or_else (and_also (Some (a_ind (OPCODES ! opcode_index) \<noteq> 0)) (is_ind str))
    (or_else (and_also (Some (a_imm (OPCODES ! opcode_index) \<noteq> 0)) (is_imm str))
    (or_else (and_also (Some (a_ind_idx (OPCODES ! opcode_index) \<noteq> 0)) (is_ind_idx str))
    (or_else (and_also (Some (a_idx_ind (OPCODES ! opcode_index) \<noteq> 0)) (is_idx_ind str))
             (and_also (Some (a_idx (OPCODES ! opcode_index) \<noteq> 0)) (is_idx str))))))"

subsection \<open>Hexadecimal literals\<close>

text \<open>\<^verbatim>\<open>isxdigit\<close> in the C locale; no byte above 127 is a hexadecimal digit.\<close>

definition isxdigit :: "char \<Rightarrow> bool" where
  "isxdigit c =
     (let n = (of_char c :: nat)
      in (48 \<le> n \<and> n \<le> 57) \<or> (65 \<le> n \<and> n \<le> 70) \<or> (97 \<le> n \<and> n \<le> 102))"

fun is_hex_str :: "string \<Rightarrow> bool" where
  "is_hex_str [] = True"
| "is_hex_str (c # cs) = (if \<not> isxdigit c then False else is_hex_str cs)"

definition digit_value :: "char \<Rightarrow> int" where
  "digit_value c =
     (let n = (of_char c :: nat)
      in if n \<le> 57 then int n - 48 else if 97 \<le> n then int n - 87 else int n - 55)"

fun strtol_digits :: "int \<Rightarrow> string \<Rightarrow> int" where
  "strtol_digits v [] = v"
| "strtol_digits v (c # cs) =
     (if isxdigit c then strtol_digits (16 * v + digit_value c) cs else v)"

text \<open>
  \<^verbatim>\<open>strtol(str, NULL, 16)\<close> on a string of hexadecimal digits (the source calls it only
  after \<open>is_hex_str\<close>, so neither white space, a sign nor a \<^verbatim>\<open>0x\<close> prefix occurs): the
  value, or \<^verbatim>\<open>LONG_MAX\<close> when it does not fit a \<^verbatim>\<open>long\<close> (64 bits, the LP64 model of the
  platforms \<^verbatim>\<open>clang\<close> targets by default). The cast \<^verbatim>\<open>(int)\<close> keeps the low 32 bits.
\<close>

definition LONG_MAX :: int where "LONG_MAX = 2 ^ 63 - 1"

definition strtol16 :: "string \<Rightarrow> int" where
  "strtol16 str = (let v = strtol_digits 0 str in if v > LONG_MAX then LONG_MAX else v)"

definition int_of_long :: "int \<Rightarrow> int" where
  "int_of_long v = sint (word_of_int v :: 32 word)"

subsection \<open>The catalog lookup\<close>

text \<open>\<^verbatim>\<open>strncmp(a, b, n) == 0\<close> on C strings.\<close>

definition strncmp_eq :: "string \<Rightarrow> string \<Rightarrow> nat \<Rightarrow> bool" where
  "strncmp_eq x y n = (take n x = take n y)"

fun find_opcode_from :: "nat \<Rightarrow> opcode list \<Rightarrow> string \<Rightarrow> nat option" where
  "find_opcode_from i [] m = None"
| "find_opcode_from i (oc # ocs) m =
     (if strncmp_eq (mnemonic oc) m 3 then Some i else find_opcode_from (Suc i) ocs m)"

text \<open>The result \<open>None\<close> is the source's \<open>-1\<close>.\<close>

definition find_opcode_index :: "string \<Rightarrow> nat option" where
  "find_opcode_index m = find_opcode_from 0 OPCODES m"

subsection \<open>Writing instructions into the program\<close>

text \<open>
  \<^verbatim>\<open>int program[PROGRAM_MEMORY_SIZE]\<close> is a local array that is never initialised: a cell
  is \<open>None\<close> until it is assigned.
\<close>

type_synonym program_memory = "int option list"

definition store :: "program_memory \<Rightarrow> nat \<Rightarrow> int \<Rightarrow> program_memory outcome" where
  "store prog i v =
     (if i < length prog then Continue (prog[i := Some v])
      else Exit (Fault (ProgramAccess i)) prog)"

definition handle_opcode :: "program_memory \<Rightarrow> nat \<Rightarrow> nat \<Rightarrow> program_memory outcome" where
  "handle_opcode prog index op =
     and_then (store prog index (a_impl (OPCODES ! op))) (\<lambda>p. store p (index + 1) 0x00)"

text \<open>\<^verbatim>\<open>str + n\<close>, read as a string afterwards: the characters from position \<open>n\<close> on.\<close>

definition advance :: "string \<Rightarrow> nat \<Rightarrow> string option" where
  "advance str n = (if n \<le> length str then Some (drop n str) else None)"

text \<open>\<^verbatim>\<open>str[i] = 0\<close>: the string ends at position \<open>i\<close>.\<close>

definition terminate_at :: "string \<Rightarrow> int \<Rightarrow> string option" where
  "terminate_at str i =
     (if 0 \<le> i \<and> i \<le> int (length str) then Some (take (nat i) str) else None)"

definition select :: "bool option \<Rightarrow> 'a \<Rightarrow> 'a outcome \<Rightarrow> 'a outcome \<Rightarrow> 'a outcome" where
  "select c st yes no =
     (case c of None \<Rightarrow> Exit (Fault TokenAccess) st | Some True \<Rightarrow> yes | Some False \<Rightarrow> no)"

text \<open>Lines 425 to 439 of \<^verbatim>\<open>handle_opcode_and_operand\<close>: the checks of the stripped
  address and the write of the operand.\<close>

definition store_operand ::
  "program_memory \<Rightarrow> nat \<Rightarrow> string option \<Rightarrow> program_memory outcome" where
  "store_operand prog index stripped_addr =
     (case stripped_addr of
        None \<Rightarrow> Exit (Fault TokenAccess) prog
      | Some str \<Rightarrow>
          if \<not> is_hex_str str then Exit InvalidAddressFormat prog
          else let hex_int = int_of_long (strtol16 str)
               in if hex_int < 0 \<or> hex_int > int PROGRAM_MEMORY_SIZE - 1
                  then Exit InvalidAddressRange prog
                  else store prog (index + 1) hex_int)"

text \<open>When no branch is taken, \<^verbatim>\<open>stripped_addr\<close> is read without a value.\<close>

definition handle_opcode_and_operand ::
  "program_memory \<Rightarrow> nat \<Rightarrow> nat \<Rightarrow> string \<Rightarrow> program_memory outcome" where
  "handle_opcode_and_operand prog index op addr =
     select (is_imm addr) prog
       (and_then (store prog index (a_imm (OPCODES ! op)))
          (\<lambda>p. store_operand p index (advance addr 2)))
    (select (is_idx addr) prog
       (and_then (store prog index (a_idx (OPCODES ! op)))
          (\<lambda>p. store_operand p index
             (Option.bind (advance addr 1) (\<lambda>str. terminate_at str (strlen str - 2)))))
    (select (is_abs addr) prog
       (and_then (store prog index (a_abs (OPCODES ! op)))
          (\<lambda>p. store_operand p index (advance addr 1)))
    (select (is_ind addr) prog
       (and_then (store prog index (a_ind (OPCODES ! op)))
          (\<lambda>p. store_operand p index
             (Option.bind (advance addr 2) (\<lambda>str. terminate_at str (strlen str - 1)))))
    (select (is_ind_idx addr) prog
       (and_then (store prog index (a_ind_idx (OPCODES ! op)))
          (\<lambda>p. store_operand p index
             (Option.bind (advance addr 2) (\<lambda>str. terminate_at str (strlen str - 3)))))
    (select (is_idx_ind addr) prog
       (and_then (store prog index (a_idx_ind (OPCODES ! op)))
          (\<lambda>p. store_operand p index
             (Option.bind (advance addr 2) (\<lambda>str. terminate_at str (strlen str - 3)))))
       (Exit (Fault UninitialisedRead) prog))))))"

subsection \<open>The assembly session\<close>

text \<open>
  The local variables of \<^verbatim>\<open>main\<close> that live across tokens. \<open>opcode_index = None\<close> is the
  source's \<open>-1\<close>; \<^verbatim>\<open>label_table_count\<close> and \<^verbatim>\<open>jump_table_count\<close> are the lengths of the
  two tables. \<^verbatim>\<open>current_line_index\<close> only feeds the messages and is left out.
\<close>

record session =
  program :: program_memory
  program_adr :: nat
  opcode_index :: "nat option"
  label_table :: "label list"
  jump_table :: "label list"

definition initial_session :: session where
  "initial_session =
     \<lparr>program = replicate PROGRAM_MEMORY_SIZE None, program_adr = 0, opcode_index = None,
      label_table = [], jump_table = []\<rparr>"

definition with_program :: "session \<Rightarrow> program_memory outcome \<Rightarrow> session outcome" where
  "with_program s r =
     (case r of Continue p \<Rightarrow> Continue (s\<lparr>program := p\<rparr>)
              | Exit e p \<Rightarrow> Exit e (s\<lparr>program := p\<rparr>))"

text \<open>
  Lines 587 to 589 and 658 to 661: the entry is written at index \<open>count\<close> of an array of
  64 (32) structs, its name copied with \<^verbatim>\<open>strcpy\<close> (the name and its terminator) into
  \<^verbatim>\<open>char label[MAX_LABEL_LENGTH]\<close>.
\<close>

definition add_jump :: "session \<Rightarrow> label \<Rightarrow> session outcome" where
  "add_jump s entry =
     (if length (jump_table s) \<ge> MAX_JUMP_COUNT
      then Exit (Fault (JumpTableAccess (length (jump_table s)))) s
      else if length (label entry) \<ge> MAX_LABEL_LENGTH then Exit (Fault LabelBufferOverflow) s
      else Continue (s\<lparr>jump_table := jump_table s @ [entry]\<rparr>))"

definition add_label :: "session \<Rightarrow> label \<Rightarrow> session outcome" where
  "add_label s entry =
     (if length (label_table s) \<ge> MAX_LABEL_COUNT
      then Exit (Fault (LabelTableAccess (length (label_table s)))) s
      else if length (label entry) \<ge> MAX_LABEL_LENGTH then Exit (Fault LabelBufferOverflow) s
      else Continue (s\<lparr>label_table := label_table s @ [entry]\<rparr>))"

text \<open>Lines 546 to 604: the token is the operand of the two-byte instruction \<open>oi\<close>.\<close>

definition operand_token :: "session \<Rightarrow> nat \<Rightarrow> string \<Rightarrow> session outcome" where
  "operand_token s oi token =
     and_then
       (select (is_valid_address oi token) s
          (with_program s (handle_opcode_and_operand (program s) (program_adr s) oi token))
          (if a_label (OPCODES ! oi) \<noteq> 0 then
             (if length (jump_table s) > MAX_JUMP_COUNT then Exit JumpTableFull s
              else if length token > MAX_LABEL_LENGTH then Exit LabelTooLong s
              else and_then
                     (with_program s
                        (and_then (store (program s) (program_adr s) (a_label (OPCODES ! oi)))
                           (\<lambda>p. store p (program_adr s + 1) 0x00)))
                     (\<lambda>s'. add_jump s' \<lparr>memory_addr = program_adr s' + 1, label = token\<rparr>))
           else Exit InvalidOperand s))
       (\<lambda>s'. Continue (s'\<lparr>opcode_index := None, program_adr := program_adr s' + 2\<rparr>))"

text \<open>Lines 605 to 673: the token is a mnemonic or a label declaration.\<close>

definition mnemonic_token :: "session \<Rightarrow> string \<Rightarrow> session outcome" where
  "mnemonic_token s token =
     (case find_opcode_index token of
        Some op \<Rightarrow>
          if a_impl (OPCODES ! op) = 0 then Continue (s\<lparr>opcode_index := Some op\<rparr>)
          else and_then (with_program s (handle_opcode (program s) (program_adr s) op))
                 (\<lambda>s'. Continue (s'\<lparr>program_adr := program_adr s' + 2\<rparr>))
      | None \<Rightarrow>
          select (ch_eq token (strlen token - 1) (CHR '':'')) s
            (case terminate_at token (strlen token - 1) of
               None \<Rightarrow> Exit (Fault TokenAccess) s
             | Some name \<Rightarrow>
                 if length (label_table s) > MAX_LABEL_COUNT then Exit LabelTableFull s
                 else if length name > MAX_LABEL_LENGTH then Exit LabelTooLong s
                 else add_label s \<lparr>memory_addr = program_adr s, label = name\<rparr>)
            (Exit UnknownMnemonic s))"

text \<open>The body of the token loop, lines 545 to 684.\<close>

definition handle_token :: "session \<Rightarrow> string \<Rightarrow> session outcome" where
  "handle_token s token =
     and_then
       (case opcode_index s of
          Some oi \<Rightarrow> operand_token s oi token
        | None \<Rightarrow> mnemonic_token s token)
       (\<lambda>s'. if program_adr s' > PROGRAM_MEMORY_SIZE then Exit ProgramTooLarge s'
             else Continue s')"

fun run_tokens :: "session \<Rightarrow> string list \<Rightarrow> session outcome" where
  "run_tokens s [] = Continue s"
| "run_tokens s (token # tokens) =
     (case handle_token s token of
        Continue s' \<Rightarrow> run_tokens s' tokens
      | Exit e s' \<Rightarrow> Exit e s')"

subsection \<open>The source scanner\<close>

text \<open>\<^verbatim>\<open>fgets(line, n, file)\<close>: at most \<open>n - 1\<close> characters, up to and with the first
  newline; the line read and the rest of the input.\<close>

fun fgets :: "nat \<Rightarrow> string \<Rightarrow> string \<times> string" where
  "fgets n [] = ([], [])"
| "fgets n (c # cs) =
     (if n \<le> 1 then ([], c # cs)
      else if c = CHR 0x0A then ([c], cs)
      else (case fgets (n - 1) cs of (l, r) \<Rightarrow> (c # l, r)))"

function read_lines :: "string \<Rightarrow> string list" where
  "read_lines input =
     (if input = [] then []
      else (case fgets MAX_LINE_LENGTH input of (l, r) \<Rightarrow> l # read_lines r))"
  by pat_completeness auto
termination
proof (relation "measure length")
  show "wf (measure length)" by simp
next
  fix input l r :: string
  assume nonempty: "input \<noteq> []" and line: "(l, r) = fgets MAX_LINE_LENGTH input"
  have shorter: "2 \<le> n \<Longrightarrow> xs \<noteq> [] \<Longrightarrow> length (snd (fgets n xs)) < length xs" for n xs
  proof (induction xs arbitrary: n)
    case Nil
    then show ?case by simp
  next
    case (Cons c cs)
    show ?case
    proof (cases "cs = [] \<or> n - 1 < 2")
      case True
      then show ?thesis using Cons.prems
        by (cases cs) (auto split: prod.splits)
    next
      case False
      then have "length (snd (fgets (n - 1) cs)) < length cs"
        using Cons.IH [of "n - 1"] by simp
      then show ?thesis using Cons.prems
        by (auto split: prod.splits)
    qed
  qed
  from line have "r = snd (fgets MAX_LINE_LENGTH input)"
    by (metis snd_conv)
  then show "(r, input) \<in> measure length"
    using shorter [of MAX_LINE_LENGTH input] nonempty
    by (simp add: MAX_LINE_LENGTH_def)
qed

text \<open>A line as the C string functions see it: up to the first NUL.\<close>

definition c_str :: "string \<Rightarrow> string" where
  "c_str buf = takeWhile (\<lambda>c. c \<noteq> CHR 0x00) buf"

definition remove_comments :: "string \<Rightarrow> string" where
  "remove_comments str = takeWhile (\<lambda>c. c \<noteq> CHR '';'') str"

text \<open>The delimiters of \<^verbatim>\<open>strtok(line, "\n\t\r ")\<close>.\<close>

definition is_delim :: "char \<Rightarrow> bool" where
  "is_delim c = (c = CHR 0x0A \<or> c = CHR 0x09 \<or> c = CHR 0x0D \<or> c = CHR '' '')"

text \<open>All tokens that the calls of \<^verbatim>\<open>strtok\<close> return for one line; \<open>cur\<close> is the token
  being read.\<close>

fun split_tokens :: "string \<Rightarrow> string \<Rightarrow> string list" where
  "split_tokens cur [] = (if cur = [] then [] else [cur])"
| "split_tokens cur (c # cs) =
     (if is_delim c then (if cur = [] then split_tokens [] cs else cur # split_tokens [] cs)
      else split_tokens (cur @ [c]) cs)"

definition strtok_all :: "string \<Rightarrow> string list" where
  "strtok_all line = split_tokens [] line"

definition assemble_line :: "session \<Rightarrow> string \<Rightarrow> session outcome" where
  "assemble_line s line = run_tokens s (strtok_all (remove_comments (c_str line)))"

fun assemble_lines :: "session \<Rightarrow> string list \<Rightarrow> session outcome" where
  "assemble_lines s [] = Continue s"
| "assemble_lines s (line # lines) =
     (case assemble_line s line of
        Continue s' \<Rightarrow> assemble_lines s' lines
      | Exit e s' \<Rightarrow> Exit e s')"

subsection \<open>Replacing labels with memory addresses\<close>

text \<open>The inner loop of lines 702 to 711: the first entry of the label table with the name.\<close>

fun find_label :: "label list \<Rightarrow> string \<Rightarrow> nat option" where
  "find_label [] name = None"
| "find_label (l # ls) name =
     (if label l = name then Some (memory_addr l) else find_label ls name)"

fun resolve_jumps :: "label list \<Rightarrow> label list \<Rightarrow> program_memory \<Rightarrow> program_memory outcome" where
  "resolve_jumps [] labels prog = Continue prog"
| "resolve_jumps (j # js) labels prog =
     (case find_label labels (label j) of
        Some adr \<Rightarrow>
          (case store prog (memory_addr j) (int adr) of
             Continue p \<Rightarrow> resolve_jumps js labels p
           | Exit e p \<Rightarrow> Exit e p)
      | None \<Rightarrow> Exit (UndefinedLabel (label j)) prog)"

subsection \<open>The whole run\<close>

text \<open>
  \<^verbatim>\<open>main\<close> on the text of the input file. On success the result is the array prefix
  \<^verbatim>\<open>program[0 .. program_adr - 1]\<close> that is handed to \<^verbatim>\<open>print_and_save_program\<close>; every exit
  happens before the output file is opened, so an error leaves no output.
\<close>

definition main :: "string \<Rightarrow> error + int list" where
  "main input =
     (case assemble_lines initial_session (read_lines input) of
        Exit e s \<Rightarrow> Inl e
      | Continue s \<Rightarrow>
          (case resolve_jumps (jump_table s) (label_table s) (program s) of
             Exit e p \<Rightarrow> Inl e
           | Continue p \<Rightarrow>
               (case those (take (program_adr s) p) of
                  None \<Rightarrow> Inl (Fault UninitialisedRead)
                | Some bytes \<Rightarrow> Inr bytes)))"

subsection \<open>Notions used in the statements\<close>

text \<open>The memory that an outcome carries, whether the function returned or exited.\<close>

definition session_of :: "'a outcome \<Rightarrow> 'a" where
  "session_of r = (case r of Continue s \<Rightarrow> s | Exit e s \<Rightarrow> s)"


text \<open>
  The symbol resolver as the specification words it, to be compared with \<open>resolve_jumps\<close>:
  for one forward reference, look its name up in the label table and, on a hit, overwrite
  the byte at the patch address with the address of the label.
\<close>

definition patch_reference :: "label list \<Rightarrow> program_memory \<Rightarrow> label \<Rightarrow> program_memory" where
  "patch_reference labels prog j =
     (case find_label labels (label j) of
        Some adr \<Rightarrow> prog[memory_addr j := Some (int adr)]
      | None \<Rightarrow> prog)"

definition unresolved :: "label list \<Rightarrow> label \<Rightarrow> bool" where
  "unresolved labels j = (find_label labels (label j) = None)"

text \<open>The invariant of the token loop.\<close>

definition written :: "nat \<Rightarrow> program_memory \<Rightarrow> bool" where
  "written n prog = list_all (\<lambda>c. c \<noteq> None) (take n prog)"

definition patches_below :: "nat \<Rightarrow> label list \<Rightarrow> bool" where
  "patches_below n jumps = list_all (\<lambda>j. memory_addr j < n) jumps"

definition wf_session :: "session \<Rightarrow> bool" where
  "wf_session s =
     (length (program s) = PROGRAM_MEMORY_SIZE \<and> program_adr s \<le> PROGRAM_MEMORY_SIZE \<and>
      patches_below (program_adr s) (jump_table s) \<and>
      distinct (map memory_addr (jump_table s)) \<and>
      written (program_adr s) (program s))"

text \<open>The counts of the two tables are within their arrays.\<close>

definition within_bounds :: "session \<Rightarrow> bool" where
  "within_bounds s =
     (length (label_table s) \<le> MAX_LABEL_COUNT \<and> length (jump_table s) \<le> MAX_JUMP_COUNT)"

text \<open>The three exits that report a full memory or table.\<close>

definition bound_error :: "error \<Rightarrow> bool" where
  "bound_error e = (e = ProgramTooLarge \<or> e = LabelTableFull \<or> e = JumpTableFull)"


section \<open>Whole runs on concrete sources\<close>

text \<open>
  C1. The source \<^verbatim>\<open>sec\<close>, \<^verbatim>\<open>lda #$0A\<close>, \<^verbatim>\<open>sta $20\<close>, \<^verbatim>\<open>rts\<close> assembles, one instruction on
  each line or all on one line, to the eight bytes \<open>a0 00 06 0a 2c 20 d1 00\<close>: the
  implicit byte of \<^verbatim>\<open>sec\<close>, the immediate byte of \<^verbatim>\<open>lda\<close>, the absolute byte of \<^verbatim>\<open>sta\<close>
  and the implicit byte of \<^verbatim>\<open>rts\<close>, each followed by its operand byte.
\<close>

theorem example_program_image:
  "main (''sec'' @ [CHR 0x0A] @ ''lda #$0A'' @ [CHR 0x0A] @ ''sta $20'' @ [CHR 0x0A] @
         ''rts'' @ [CHR 0x0A])
     = Inr [0xa0, 0x00, 0x06, 0x0a, 0x2c, 0x20, 0xd1, 0x00] \<and>
   main ''sec lda #$0A sta $20 rts'' = Inr [0xa0, 0x00, 0x06, 0x0a, 0x2c, 0x20, 0xd1, 0x00] \<and>
   a_impl (OPCODES ! 28) = 0xa0 \<and> a_imm (OPCODES ! 17) = 0x06 \<and>
   a_abs (OPCODES ! 29) = 0x2c \<and> a_impl (OPCODES ! 26) = 0xd1 \<and>
   find_opcode_index ''sec'' = Some 28 \<and> find_opcode_index ''lda'' = Some 17 \<and>
   find_opcode_index ''sta'' = Some 29 \<and> find_opcode_index ''rts'' = Some 26"
  by code_simp

text \<open>
  C2. The catalog gives \<^verbatim>\<open>ldb\<close> the indirect-indexed byte \<open>0x1e\<close> and the source documents
  the syntax of that mode as \<^verbatim>\<open>($nn),a\<close>, but \<open>is_ind_idx\<close> rejects every token of that
  form (it asks for a character other than \<^verbatim>\<open>)\<close> three places from the end), so
  \<^verbatim>\<open>ldb ($20),a\<close> exits with "Invalid or missing operand" instead of giving \<open>1e 20\<close>. In
  the same way \<open>is_ind\<close> rejects an indirect operand whose literal ends in a lower-case
  \<^verbatim>\<open>a\<close>: \<^verbatim>\<open>lda ($0a)\<close> exits, \<^verbatim>\<open>lda ($0A)\<close> gives \<open>0c 0a\<close>. A value that fits a \<^verbatim>\<open>long\<close> but
  not an \<^verbatim>\<open>int\<close> is cut to its low 32 bits before the range check.
\<close>

theorem indirect_indexed_operand_rejected:
  "find_opcode_index ''ldb'' = Some 18 \<and> a_ind_idx (OPCODES ! 18) = 0x1e \<and>
   is_ind_idx ''($20),a'' = Some False \<and>
   is_valid_address 18 ''($20),a'' = Some False \<and>
   main ''ldb ($20),a'' = Inl InvalidOperand \<and>
   a_ind (OPCODES ! 17) = 0x0c \<and> is_ind ''($0a)'' = Some False \<and>
   main ''lda ($0a)'' = Inl InvalidOperand \<and>
   main ''lda ($0A)'' = Inr [0x0c, 0x0a] \<and>
   main ''lda $100000000'' = Inr [0x08, 0x00]"
  by code_simp

text \<open>
  C9. On the one-character token \<^verbatim>\<open>$\<close> the predicates \<open>is_abs\<close> and \<open>is_idx\<close> read
  \<^verbatim>\<open>token[strlen(token) - 2]\<close>, the character before the token; on the two-character token
  \<^verbatim>\<open>($\<close> the predicates \<open>is_idx_ind\<close>, \<open>is_ind\<close> and \<open>is_ind_idx\<close> read
  \<^verbatim>\<open>token[strlen(token) - 3]\<close>, again the character before the token. The operand \<^verbatim>\<open>$\<close> of
  \<^verbatim>\<open>lda\<close> reaches \<open>is_abs\<close>; on a line of its own it is the first character of the line
  buffer.
\<close>

theorem classifier_reads_before_token:
  "is_abs ''$'' = None \<and> is_idx ''$'' = None \<and>
   is_idx_ind ''($'' = None \<and> is_ind ''($'' = None \<and> is_ind_idx ''($'' = None \<and>
   char_at ''$'' (strlen ''$'' - 2) = None \<and> char_at ''($'' (strlen ''($'' - 3) = None \<and>
   is_valid_address 17 ''$'' = None \<and>
   main (''lda'' @ [CHR 0x0A] @ ''$'' @ [CHR 0x0A]) = Inl (Fault TokenAccess)"
  by code_simp

section \<open>The addressing-mode classifier\<close>












section \<open>The operand encoder\<close>










section \<open>The label table\<close>

lemma session_of_simps [simp]: "session_of (Continue s) = s" "session_of (Exit e s) = s"
  by (simp_all add: session_of_def)

lemma operand_token_labels:
  "label_table (session_of (operand_token s oi token)) = label_table s"
  by (auto simp: operand_token_def and_then_def select_def add_jump_def with_program_def
      split: outcome.splits option.splits bool.splits)

lemma mnemonic_token_labels:
  "prefix (label_table s) (label_table (session_of (mnemonic_token s token)))"
  by (auto simp: mnemonic_token_def and_then_def select_def add_label_def with_program_def
      split: outcome.splits option.splits bool.splits)

lemma handle_token_labels:
  "prefix (label_table s) (label_table (session_of (handle_token s token)))"
proof (cases "opcode_index s")
  case None
  then show ?thesis using mnemonic_token_labels [of s token]
    by (auto simp: handle_token_def and_then_def split: outcome.splits)
next
  case (Some oi)
  then show ?thesis using operand_token_labels [of s oi token]
    by (auto simp: handle_token_def and_then_def split: outcome.splits)
qed

lemma run_tokens_labels:
  "prefix (label_table s) (label_table (session_of (run_tokens s tokens)))"
proof (induction tokens arbitrary: s)
  case Nil
  then show ?case by simp
next
  case (Cons t ts)
  show ?case
  proof (cases "handle_token s t")
    case (Continue s')
    then show ?thesis using handle_token_labels [of s t] Cons.IH [of s']
      by (auto intro: prefix_order.trans)
  next
    case (Exit e s')
    then show ?thesis using handle_token_labels [of s t] by simp
  qed
qed

lemma assemble_lines_labels:
  "prefix (label_table s) (label_table (session_of (assemble_lines s lines)))"
proof (induction lines arbitrary: s)
  case Nil
  then show ?case by simp
next
  case (Cons l ls)
  note line = run_tokens_labels [of s "strtok_all (remove_comments (c_str l))"]
  show ?case
  proof (cases "assemble_line s l")
    case (Continue s')
    then show ?thesis using line Cons.IH [of s']
      by (auto simp: assemble_line_def intro: prefix_order.trans)
  next
    case (Exit e s')
    then show ?thesis using line
      by (simp add: assemble_line_def)
  qed
qed

text \<open>
  C6, as the code has it. The label table only grows at its end: after one token, and
  after any number of lines, whether the run goes on or exits, the table it started from
  is a prefix of the table it leaves, so a recorded entry is never changed or removed
  (the resolver reads the table and returns the program memory only). Names are not
  compared when a label is declared; a look-up returns the first entry with the name.
\<close>

theorem label_table_append_only:
  "prefix (label_table s) (label_table (session_of (handle_token s token))) \<and>
   prefix (label_table s) (label_table (session_of (assemble_lines s lines))) \<and>
   find_label (\<lparr>memory_addr = adr, label = name\<rparr> # labels) name = Some adr"
  using handle_token_labels [of s token] assemble_lines_labels [of s lines] by simp

text \<open>
  C6 as stated fails: the source \<^verbatim>\<open>a: clc a: jmp a\<close> assembles, and its label table
  holds two entries with the name \<^verbatim>\<open>a\<close>; the jump is resolved to the first.
\<close>

theorem label_table_counterexample:
  "label_table (session_of (assemble_lines initial_session (read_lines ''a: clc a: jmp a'')))
     = [\<lparr>memory_addr = 0, label = ''a''\<rparr>, \<lparr>memory_addr = 2, label = ''a''\<rparr>] \<and>
   \<not> distinct (map label
        (label_table (session_of (assemble_lines initial_session (read_lines ''a: clc a: jmp a''))))) \<and>
   main ''a: clc a: jmp a'' = Inr [0xa2, 0x00, 0xb8, 0x00]"
  by code_simp

section \<open>The symbol resolver\<close>

subsection \<open>The invariant of the token loop\<close>

lemma store_Continue: "store p i v = Continue p' \<longleftrightarrow> i < length p \<and> p' = p[i := Some v]"
  by (auto simp: store_def)

lemma and_then_Continue:
  "and_then m f = Continue y \<longleftrightarrow> (\<exists>x. m = Continue x \<and> f x = Continue y)"
  by (auto simp: and_then_def split: outcome.splits)

lemma select_Continue:
  "select c st yes no = Continue y \<longleftrightarrow>
     (c = Some True \<and> yes = Continue y) \<or> (c = Some False \<and> no = Continue y)"
  by (auto simp: select_def split: option.splits bool.splits)

lemma with_program_Continue:
  "with_program s r = Continue s' \<longleftrightarrow> (\<exists>p. r = Continue p \<and> s' = s\<lparr>program := p\<rparr>)"
  by (auto simp: with_program_def split: outcome.splits)

lemma store_operand_Continue:
  "store_operand p index stripped = Continue p' \<Longrightarrow>
     Suc index < length p \<and> (\<exists>v. p' = p[Suc index := Some v])"
  by (auto simp: store_operand_def store_Continue Let_def split: option.splits if_splits)

lemma two_cells:
  "\<exists>m w. prog[i := Some x, Suc i := Some v] = prog[i := Some m, Suc i := Some w]"
  by blast

lemma handle_opcode_and_operand_Continue:
  assumes "handle_opcode_and_operand prog index op addr = Continue p'"
  shows "Suc index < length prog \<and> (\<exists>m v. p' = prog[index := Some m, Suc index := Some v])"
  using assms unfolding handle_opcode_and_operand_def
  by (auto simp: select_Continue and_then_Continue store_Continue two_cells
      dest!: store_operand_Continue)

lemma handle_opcode_Continue:
  assumes "handle_opcode prog index op = Continue p'"
  shows "Suc index < length prog \<and> (\<exists>m v. p' = prog[index := Some m, Suc index := Some v])"
  using assms unfolding handle_opcode_def
  by (auto simp: and_then_Continue store_Continue two_cells)

lemma written_two:
  assumes "written n p" and "Suc n < length p"
  shows "written (Suc (Suc n)) (p[n := Some m, Suc n := Some v])"
proof -
  have "(p[n := Some m, Suc n := Some v]) ! k \<noteq> None" if "k < Suc (Suc n)" for k
  proof (cases "k < n")
    case True
    with assms have "p ! k \<noteq> None"
      by (auto simp: written_def list_all_length)
    with True show ?thesis by simp
  next
    case False
    with that have "k = n \<or> k = Suc n" by arith
    with assms(2) show ?thesis by auto
  qed
  with assms(2) show ?thesis
    by (simp add: written_def list_all_length)
qed


lemma patches_below_mono: "patches_below n js \<Longrightarrow> n \<le> m \<Longrightarrow> patches_below m js"
  unfolding patches_below_def by (induction js) auto

lemma patches_below_step: "patches_below n js \<Longrightarrow> patches_below (Suc (Suc n)) js"
  using patches_below_mono [of n js "Suc (Suc n)"] by simp

lemma patches_below_snoc:
  "patches_below n (js @ [j]) \<longleftrightarrow> patches_below n js \<and> memory_addr j < n"
  by (auto simp: patches_below_def)


lemma patches_below_fresh:
  "patches_below n js \<Longrightarrow> j \<in> set js \<Longrightarrow> Suc n = memory_addr j \<Longrightarrow> False"
  by (auto simp: patches_below_def list_all_iff)

lemma operand_token_wf:
  assumes "operand_token s oi token = Continue s'" and "wf_session s"
  shows "length (program s') = PROGRAM_MEMORY_SIZE \<and>
      patches_below (program_adr s') (jump_table s') \<and>
      distinct (map memory_addr (jump_table s')) \<and>
      written (program_adr s') (program s')"
  using assms unfolding operand_token_def wf_session_def
  by (auto simp: and_then_Continue select_Continue with_program_Continue store_Continue
           add_jump_def written_two patches_below_snoc
      dest!: handle_opcode_and_operand_Continue dest: patches_below_fresh
      intro: patches_below_step split: if_splits)

lemma mnemonic_token_wf:
  assumes "mnemonic_token s token = Continue s'" and "wf_session s"
  shows "length (program s') = PROGRAM_MEMORY_SIZE \<and>
      patches_below (program_adr s') (jump_table s') \<and>
      distinct (map memory_addr (jump_table s')) \<and>
      written (program_adr s') (program s')"
  using assms unfolding mnemonic_token_def wf_session_def
  by (auto simp: and_then_Continue select_Continue with_program_Continue add_label_def
           written_two
      dest!: handle_opcode_Continue
      intro: patches_below_step split: if_splits option.splits)

lemma handle_token_wf:
  assumes "handle_token s token = Continue s'" and "wf_session s"
  shows "wf_session s'"
proof -
  from assms(1) obtain s1 where
    s1: "(case opcode_index s of Some oi \<Rightarrow> operand_token s oi token
          | None \<Rightarrow> mnemonic_token s token) = Continue s1"
    and fin: "(if program_adr s1 > PROGRAM_MEMORY_SIZE then Exit ProgramTooLarge s1
               else Continue s1) = Continue s'"
    unfolding handle_token_def and_then_Continue by blast
  from fin have eq: "s' = s1" and le: "program_adr s1 \<le> PROGRAM_MEMORY_SIZE"
    by (auto split: if_splits)
  have "length (program s1) = PROGRAM_MEMORY_SIZE \<and>
      patches_below (program_adr s1) (jump_table s1) \<and>
      distinct (map memory_addr (jump_table s1)) \<and>
      written (program_adr s1) (program s1)"
    using s1 assms(2) operand_token_wf mnemonic_token_wf
    by (cases "opcode_index s") auto
  with eq le show ?thesis by (simp add: wf_session_def)
qed

lemma run_tokens_wf:
  "run_tokens s tokens = Continue s' \<Longrightarrow> wf_session s \<Longrightarrow> wf_session s'"
proof (induction tokens arbitrary: s)
  case Nil
  then show ?case by simp
next
  case (Cons t ts)
  then show ?case
    by (auto split: outcome.splits dest: handle_token_wf)
qed

lemma assemble_lines_wf:
  "assemble_lines s lines = Continue s' \<Longrightarrow> wf_session s \<Longrightarrow> wf_session s'"
proof (induction lines arbitrary: s)
  case Nil
  then show ?case by simp
next
  case (Cons l ls)
  then show ?case
    by (auto simp: assemble_line_def split: outcome.splits dest: run_tokens_wf)
qed

lemma initial_wf: "wf_session initial_session"
  by (simp add: wf_session_def initial_session_def written_def patches_below_def)

subsection \<open>The resolver against its specification\<close>

lemma patch_hit:
  "find_label labels (label j) = Some adr \<Longrightarrow>
     patch_reference labels prog j = prog[memory_addr j := Some (int adr)]"
  by (simp add: patch_reference_def)

lemma patch_length [simp]: "length (patch_reference labels prog j) = length prog"
  by (simp add: patch_reference_def split: option.splits)

lemma foldl_patch_length [simp]: "length (foldl (patch_reference labels) prog js) = length prog"
  by (induction js arbitrary: prog) simp_all

lemma resolve_jumps_refines:
  assumes "patches_below (length prog) js"
  shows "resolve_jumps js labels prog =
     (case find (unresolved labels) js of
        None \<Rightarrow> Continue (foldl (patch_reference labels) prog js)
      | Some j \<Rightarrow> Exit (UndefinedLabel (label j))
          (foldl (patch_reference labels) prog (takeWhile (\<lambda>j. \<not> unresolved labels j) js)))"
  using assms
proof (induction js arbitrary: prog)
  case Nil
  then show ?case by simp
next
  case (Cons j js)
  show ?case
  proof (cases "find_label labels (label j)")
    case None
    then have "unresolved labels j" by (simp add: unresolved_def)
    with None show ?thesis by simp
  next
    case (Some adr)
    then have res: "\<not> unresolved labels j" by (simp add: unresolved_def)
    from Cons.prems have lt: "memory_addr j < length prog"
      and rest: "patches_below (length prog) js"
      by (simp_all add: patches_below_def)
    from rest have "patches_below (length (prog[memory_addr j := Some (int adr)])) js"
      by simp
    from Cons.IH [OF this] Some lt res show ?thesis
      by (simp add: store_def patch_hit split: option.splits)
  qed
qed










section \<open>The bounds of the program memory and of the tables\<close>

lemma and_then_Exit:
  "and_then m f = Exit e y \<longleftrightarrow> m = Exit e y \<or> (\<exists>x. m = Continue x \<and> f x = Exit e y)"
  by (auto simp: and_then_def split: outcome.splits)

lemma select_Exit:
  "select c st yes no = Exit e y \<longleftrightarrow>
     (c = None \<and> e = Fault TokenAccess \<and> y = st) \<or> (c = Some True \<and> yes = Exit e y) \<or>
     (c = Some False \<and> no = Exit e y)"
  by (auto simp: select_def split: option.splits bool.splits)

lemma with_program_Exit:
  "with_program s r = Exit e s' \<longleftrightarrow> (\<exists>p. r = Exit e p \<and> s' = s\<lparr>program := p\<rparr>)"
  by (auto simp: with_program_def split: outcome.splits)

lemma store_Exit: "store p i v = Exit e p' \<Longrightarrow> \<not> bound_error e"
  by (auto simp: store_def bound_error_def split: if_splits)

lemma store_operand_Exit: "store_operand p i str = Exit e p' \<Longrightarrow> \<not> bound_error e"
  by (auto simp: store_operand_def bound_error_def Let_def dest: store_Exit
      split: option.splits if_splits)

lemma handle_opcode_and_operand_Exit:
  "handle_opcode_and_operand prog index op addr = Exit e p' \<Longrightarrow> \<not> bound_error e"
  unfolding handle_opcode_and_operand_def
  by (auto simp: select_Exit and_then_Exit dest: store_Exit store_operand_Exit)
     (auto simp: bound_error_def)

lemma handle_opcode_Exit: "handle_opcode prog index op = Exit e p' \<Longrightarrow> \<not> bound_error e"
  unfolding handle_opcode_def by (auto simp: and_then_Exit dest: store_Exit)

lemma operand_token_Exit:
  assumes "operand_token s oi token = Exit e s'" and "within_bounds s"
  shows "\<not> bound_error e"
  using assms unfolding operand_token_def within_bounds_def
  by (auto simp: and_then_Exit select_Exit with_program_Exit with_program_Continue
        and_then_Continue add_jump_def
      dest: handle_opcode_and_operand_Exit store_Exit split: if_splits)
     (auto simp: bound_error_def)

lemma mnemonic_token_Exit:
  assumes "mnemonic_token s token = Exit e s'" and "within_bounds s"
  shows "\<not> bound_error e"
  using assms unfolding mnemonic_token_def within_bounds_def
  by (auto simp: and_then_Exit select_Exit with_program_Exit add_label_def
      dest: handle_opcode_Exit split: if_splits option.splits)
     (auto simp: bound_error_def)

lemma operand_token_bounds:
  assumes "operand_token s oi token = Continue s'" and "within_bounds s" and "wf_session s"
  shows "within_bounds s' \<and> program_adr s' \<le> PROGRAM_MEMORY_SIZE"
  using assms unfolding operand_token_def within_bounds_def wf_session_def
  by (auto simp: and_then_Continue select_Continue with_program_Continue store_Continue
        add_jump_def
      dest!: handle_opcode_and_operand_Continue split: if_splits)

lemma mnemonic_token_bounds:
  assumes "mnemonic_token s token = Continue s'" and "within_bounds s" and "wf_session s"
  shows "within_bounds s' \<and> program_adr s' \<le> PROGRAM_MEMORY_SIZE"
  using assms unfolding mnemonic_token_def within_bounds_def wf_session_def
  by (auto simp: and_then_Continue select_Continue with_program_Continue add_label_def
      dest!: handle_opcode_Continue split: if_splits option.splits)

lemma handle_token_bounds:
  assumes "wf_session s" and "within_bounds s"
  shows "(handle_token s token = Continue s' \<longrightarrow> within_bounds s') \<and>
         (handle_token s token = Exit e s' \<longrightarrow> \<not> bound_error e)"
proof (cases "opcode_index s")
  case None
  with assms mnemonic_token_bounds [of s token] mnemonic_token_Exit [of s token e s']
  show ?thesis
    by (auto simp: handle_token_def and_then_Continue and_then_Exit split: if_splits)
next
  case (Some oi)
  with assms operand_token_bounds [of s oi token] operand_token_Exit [of s oi token e s']
  show ?thesis
    by (auto simp: handle_token_def and_then_Continue and_then_Exit split: if_splits)
qed

lemma run_tokens_bounds:
  assumes "wf_session s" and "within_bounds s"
  shows "(run_tokens s tokens = Continue s' \<longrightarrow> within_bounds s') \<and>
         (run_tokens s tokens = Exit e s' \<longrightarrow> \<not> bound_error e)"
  using assms
proof (induction tokens arbitrary: s)
  case Nil
  then show ?case by auto
next
  case (Cons t ts)
  show ?case
  proof (cases "handle_token s t")
    case (Continue s1)
    with Cons.prems have "wf_session s1" "within_bounds s1"
      using handle_token_wf handle_token_bounds by blast+
    from Cons.IH [OF this] Continue show ?thesis by simp
  next
    case (Exit e1 s1)
    with Cons.prems handle_token_bounds [of s t s1 e1] show ?thesis by auto
  qed
qed

lemma assemble_lines_bounds:
  assumes "wf_session s" and "within_bounds s"
  shows "(assemble_lines s lines = Continue s' \<longrightarrow> within_bounds s') \<and>
         (assemble_lines s lines = Exit e s' \<longrightarrow> \<not> bound_error e)"
  using assms
proof (induction lines arbitrary: s)
  case Nil
  then show ?case by auto
next
  case (Cons l ls)
  note line = run_tokens_bounds [OF Cons.prems, of "strtok_all (remove_comments (c_str l))"]
  show ?case
  proof (cases "assemble_line s l")
    case (Continue s1)
    with Cons.prems line have "wf_session s1" "within_bounds s1"
      using run_tokens_wf by (auto simp: assemble_line_def)
    from Cons.IH [OF this] Continue show ?thesis by simp
  next
    case (Exit e1 s1)
    with line [of s1 e1] show ?thesis by (auto simp: assemble_line_def)
  qed
qed

lemma bound_errors_unreachable: "\<not> (\<exists>e. main input = Inl e \<and> bound_error e)"
proof
  assume "\<exists>e. main input = Inl e \<and> bound_error e"
  then obtain e where m: "main input = Inl e" and b: "bound_error e" by blast
  have "within_bounds initial_session"
    by (simp add: within_bounds_def initial_session_def)
  with initial_wf have init: "wf_session initial_session" "within_bounds initial_session"
    by simp_all
  show False
  proof (cases "assemble_lines initial_session (read_lines input)")
    case (Exit e1 s1)
    with m have "e1 = e" by (simp add: main_def)
    with assemble_lines_bounds [OF init, of "read_lines input" s1 e1] Exit b
    show False by simp
  next
    case (Continue s)
    have wf: "wf_session s" using assemble_lines_wf [OF Continue initial_wf] .
    then have "patches_below (length (program s)) (jump_table s)"
      using patches_below_mono [of "program_adr s" "jump_table s" "length (program s)"]
      by (simp add: wf_session_def)
    note ref = resolve_jumps_refines [OF this, of "label_table s"]
    with m Continue b show False
      by (auto simp: main_def bound_error_def split: option.splits outcome.splits)
  qed
qed

text \<open>
  C4. 128 single-byte instructions fill the program memory. The 129th is written by
  \<open>handle_opcode\<close> at \<^verbatim>\<open>program[256]\<close>, beyond the array, before \<^verbatim>\<open>program_adr\<close> is compared
  with the memory size. No run reaches the exit "Program exceeds memory size" without
  such a write.
\<close>

theorem program_write_beyond_memory:
  "main (concat (replicate 128 (''clc'' @ [CHR 0x0A]))) = Inr (concat (replicate 128 [0xa2, 0x00])) \<and>
   main (concat (replicate 129 (''clc'' @ [CHR 0x0A]))) = Inl (Fault (ProgramAccess 256)) \<and>
   main input \<noteq> Inl ProgramTooLarge"
proof -
  have "main (concat (replicate 128 (''clc'' @ [CHR 0x0A])))
          = Inr (concat (replicate 128 [0xa2, 0x00]))"
    "main (concat (replicate 129 (''clc'' @ [CHR 0x0A]))) = Inl (Fault (ProgramAccess 256))"
    by code_simp+
  moreover have "main input \<noteq> Inl ProgramTooLarge"
    using bound_errors_unreachable [of input] by (auto simp: bound_error_def)
  ultimately show ?thesis by simp
qed

text \<open>
  C5. The tables are checked with \<^verbatim>\<open>count > MAX\<close>: with 32 labels recorded the 33rd
  declaration passes the check and is written at \<^verbatim>\<open>label_table[32]\<close>, beyond the array, and
  with 64 forward references recorded the 65th is written at \<^verbatim>\<open>jump_table[64]\<close>. A name of
  33 characters exits with "Label name is too long"; a name of 32 characters passes the
  check and \<^verbatim>\<open>strcpy\<close> writes its terminator beyond \<^verbatim>\<open>char label[32]\<close>. No run reaches
  the exits "Exceeded label count" and "Exceeded jump count" without such a write.
\<close>

theorem table_write_beyond_bound:
  "main (concat (map (\<lambda>n. [CHR ''l'', char_of (48 + n div 10), char_of (48 + n mod 10),
                           CHR '':'', CHR 0x0A]) [0..<33]))
     = Inl (Fault (LabelTableAccess 32)) \<and>
   main (concat (replicate 65 (''jmp x'' @ [CHR 0x0A]))) = Inl (Fault (JumpTableAccess 64)) \<and>
   main (replicate 33 (CHR ''x'') @ '':'') = Inl LabelTooLong \<and>
   main (''jmp '' @ replicate 33 (CHR ''x'')) = Inl LabelTooLong \<and>
   main (replicate 32 (CHR ''x'') @ '':'') = Inl (Fault LabelBufferOverflow) \<and>
   main input \<noteq> Inl LabelTableFull \<and> main input \<noteq> Inl JumpTableFull"
proof -
  have "main (concat (map (\<lambda>n. [CHR ''l'', char_of (48 + n div 10), char_of (48 + n mod 10),
                           CHR '':'', CHR 0x0A]) [0..<33]))
     = Inl (Fault (LabelTableAccess 32))"
    "main (concat (replicate 65 (''jmp x'' @ [CHR 0x0A]))) = Inl (Fault (JumpTableAccess 64))"
    "main (replicate 33 (CHR ''x'') @ '':'') = Inl LabelTooLong"
    "main (''jmp '' @ replicate 33 (CHR ''x'')) = Inl LabelTooLong"
    "main (replicate 32 (CHR ''x'') @ '':'') = Inl (Fault LabelBufferOverflow)"
    by code_simp+
  moreover have "main input \<noteq> Inl LabelTableFull" "main input \<noteq> Inl JumpTableFull"
    using bound_errors_unreachable [of input] by (auto simp: bound_error_def)
  ultimately show ?thesis by simp
qed

end
